theory Spec2Isabelle
  imports Complex_Main "HOL-Library.Sublist"
begin

section \<open>Python values used by the dashboard\<close>

text \<open>
  The repository is a Streamlit dashboard (\<^verbatim>\<open>src/app.py\<close>) around a pickled
  regression artifact (\<^verbatim>\<open>src/utils/model.py\<close>, \<^verbatim>\<open>src/model.py\<close>) and static
  tables (\<^verbatim>\<open>src/states_data.py\<close>). Python dictionaries written as literals are
  association lists in source order (no literal of the source repeats a key), Python
  \<^verbatim>\<open>int\<close> is \<open>int\<close>, and Python \<^verbatim>\<open>float\<close> is \<open>real\<close>: the claims below are
  about table lookups, guards and data flow, not about rounding. Where NumPy converts
  numbers (an \<^verbatim>\<open>int\<close> beside a \<^verbatim>\<open>float\<close> becomes the nearest \<^verbatim>\<open>float64\<close>), the
  conversion is a parameter of the model, so every theorem holds for whatever it is.
\<close>

text \<open>\<^verbatim>\<open>d.get(k, default)\<close> and \<^verbatim>\<open>k in d\<close> on a dictionary with string keys.\<close>

definition dict_get :: "('k \<times> 'v) list \<Rightarrow> 'k \<Rightarrow> 'v \<Rightarrow> 'v" where
  "dict_get d k dflt = (case map_of d k of Some v \<Rightarrow> v | None \<Rightarrow> dflt)"

definition dict_in :: "'k \<Rightarrow> ('k \<times> 'v) list \<Rightarrow> bool" where
  "dict_in k d = (map_of d k \<noteq> None)"

section \<open>The historical reference lookup (\<^verbatim>\<open>get_historical_prediction\<close>)\<close>

text \<open>Lines 60--88 of \<^verbatim>\<open>src/app.py\<close>: average yields by state and crop, in kg/ha.\<close>

definition historical_data :: "(string \<times> (string \<times> int) list) list" where
  "historical_data =
    [(''Punjab'',
        [(''Rice'', 4200), (''Wheat'', 4800), (''Maize'', 3800), (''Cotton'', 1800)]),
     (''Haryana'',
        [(''Rice'', 3900), (''Wheat'', 4600), (''Maize'', 3600), (''Cotton'', 1700)]),
     (''Uttar Pradesh'',
        [(''Rice'', 2400), (''Wheat'', 3200), (''Sugarcane'', 68000), (''Potato'', 22000)]),
     (''Maharashtra'',
        [(''Cotton'', 1200), (''Sugarcane'', 78000), (''Soybean'', 1800), (''Rice'', 2800)]),
     (''Karnataka'',
        [(''Rice'', 3200), (''Cotton'', 1400), (''Sugarcane'', 82000), (''Maize'', 4500)]),
     (''Tamil Nadu'',
        [(''Rice'', 3600), (''Cotton'', 1600), (''Sugarcane'', 98000), (''Groundnut'', 1900)]),
     (''Gujarat'',
        [(''Cotton'', 1500), (''Groundnut'', 2100), (''Wheat'', 3400), (''Rice'', 2600)]),
     (''West Bengal'',
        [(''Rice'', 3400), (''Wheat'', 3000), (''Potato'', 24000), (''Jute'', 2200)]),
     (''Rajasthan'',
        [(''Wheat'', 3800), (''Mustard'', 1200), (''Barley'', 2800), (''Cotton'', 900)])]"

text \<open>Lines 91--94: the crop-level defaults.\<close>

definition default_yields :: "(string \<times> int) list" where
  "default_yields =
    [(''Rice'', 3000), (''Wheat'', 3200), (''Maize'', 4000), (''Cotton'', 1200),
     (''Sugarcane'', 70000), (''Soybean'', 1800), (''Groundnut'', 1700), (''Pulses'', 1200)]"

text \<open>The dictionary the function returns (lines 99--103).\<close>

record historical_result =
  historical_yield :: int
  data_source :: string
  reliability :: real

definition get_historical_prediction :: "string \<Rightarrow> string \<Rightarrow> historical_result" where
  "get_historical_prediction state crop_type =
    (let state_data = dict_get historical_data state [];
         hist_yield = dict_get state_data crop_type (dict_get default_yields crop_type 2500)
     in \<lparr> historical_yield = hist_yield,
          data_source = ''Average yield data for '' @ crop_type @ '' in '' @ state,
          reliability = (if dict_in state historical_data then 85 else 70) \<rparr>)"

text \<open>
  Whether the historical table holds a yield for exactly this state and this crop: the
  first step of the fallback order, read off the table alone.
\<close>

definition exact_entry :: "string \<Rightarrow> string \<Rightarrow> int option" where
  "exact_entry state crop_type =
    (case map_of historical_data state of
       None \<Rightarrow> None
     | Some state_data \<Rightarrow> map_of state_data crop_type)"

text \<open>
  The fallback order in the words of the specification: the exact state and crop entry,
  else the crop-only default, else the global default 2500.
\<close>

definition fallback_chain :: "string \<Rightarrow> string \<Rightarrow> int" where
  "fallback_chain state crop_type =
    (case exact_entry state crop_type of
       Some y \<Rightarrow> y
     | None \<Rightarrow> (case map_of default_yields crop_type of Some y \<Rightarrow> y | None \<Rightarrow> 2500))"

section \<open>Inputs and their domain\<close>

text \<open>\<^verbatim>\<open>INDIAN_STATES\<close> and \<^verbatim>\<open>CROP_TYPES\<close> of \<^verbatim>\<open>src/states_data.py\<close>.\<close>

definition INDIAN_STATES :: "(string \<times> string) list" where
  "INDIAN_STATES =
    [(''Andhra Pradesh'', ''AP''), (''Arunachal Pradesh'', ''AR''), (''Assam'', ''AS''),
     (''Bihar'', ''BR''), (''Chhattisgarh'', ''CG''), (''Goa'', ''GA''), (''Gujarat'', ''GJ''),
     (''Haryana'', ''HR''), (''Himachal Pradesh'', ''HP''), (''Jharkhand'', ''JH''),
     (''Karnataka'', ''KA''), (''Kerala'', ''KL''), (''Madhya Pradesh'', ''MP''),
     (''Maharashtra'', ''MH''), (''Manipur'', ''MN''), (''Meghalaya'', ''ML''),
     (''Mizoram'', ''MZ''), (''Nagaland'', ''NL''), (''Odisha'', ''OR''), (''Punjab'', ''PB''),
     (''Rajasthan'', ''RJ''), (''Sikkim'', ''SK''), (''Tamil Nadu'', ''TN''),
     (''Telangana'', ''TG''), (''Tripura'', ''TR''), (''Uttar Pradesh'', ''UP''),
     (''Uttarakhand'', ''UK''), (''West Bengal'', ''WB''),
     (''Andaman and Nicobar Islands'', ''AN''), (''Chandigarh'', ''CH''),
     (''Dadra and Nagar Haveli and Daman and Diu'', ''DN''), (''Delhi'', ''DL''),
     (''Jammu and Kashmir'', ''JK''), (''Ladakh'', ''LA''), (''Lakshadweep'', ''LD''),
     (''Puducherry'', ''PY'')]"

definition CROP_TYPES :: "string list" where
  "CROP_TYPES =
    [''Rice'', ''Wheat'', ''Maize'', ''Cotton'', ''Sugarcane'', ''Soybean'', ''Groundnut'',
     ''Pulses'', ''Mustard'', ''Sunflower'', ''Barley'', ''Jowar'', ''Bajra'', ''Ragi'',
     ''Turmeric'', ''Chili'', ''Onion'', ''Potato'', ''Tomato'', ''Banana'']"

text \<open>
  The dictionary built by \<^verbatim>\<open>preprocess_inputs\<close> (lines 45--54): five keys, each holding
  the argument as it was passed. The three measurements are numbers (the sliders give
  \<^verbatim>\<open>int\<close> for rainfall and temperature and \<^verbatim>\<open>float\<close> for the pH).
\<close>

record inputs =
  state :: string
  rainfall :: real
  temperature :: real
  soil_ph :: real
  crop_type :: string

definition preprocess_inputs :: "string \<Rightarrow> real \<Rightarrow> real \<Rightarrow> real \<Rightarrow> string \<Rightarrow> inputs" where
  "preprocess_inputs st ra te ph cr =
    \<lparr> state = st, rainfall = ra, temperature = te, soil_ph = ph, crop_type = cr \<rparr>"

text \<open>
  The domain the widgets of \<^verbatim>\<open>main\<close> enforce (lines 124--165): the two select boxes
  offer the keys of \<^verbatim>\<open>INDIAN_STATES\<close> and the entries of \<^verbatim>\<open>CROP_TYPES\<close>, the sliders
  run over 200..3000, 15..40 and 4.0..9.0.
\<close>

definition valid_input :: "inputs \<Rightarrow> bool" where
  "valid_input i =
    (dict_in (state i) INDIAN_STATES \<and> crop_type i \<in> set CROP_TYPES \<and>
     200 \<le> rainfall i \<and> rainfall i \<le> 3000 \<and>
     15 \<le> temperature i \<and> temperature i \<le> 40 \<and>
     4 \<le> soil_ph i \<and> soil_ph i \<le> 9)"

section \<open>The artifact and the two \<^verbatim>\<open>predict_yield\<close> functions\<close>

text \<open>Every raise of the modelled code is a value of this type.\<close>

datatype error =
  FileNotFoundError
  | IndexError
  | ZeroDivisionError
  | Raised string  \<comment> \<open>an exception raised inside the artifact or by \<^verbatim>\<open>pickle.load\<close>\<close>

text \<open>
  The objects that reach \<^verbatim>\<open>predict_yield\<close>: Python numbers and, in \<^verbatim>\<open>app.py\<close>,
  the dictionary of inputs. Sequences of them nest.
\<close>

datatype cell = PyInt int | PyFloat real | Dict inputs

datatype 'a nd = Item 'a | Seq "'a nd list"

text \<open>
  The argument of \<^verbatim>\<open>predict_yield\<close> in the two shapes its callers and the
  specification use: one object (\<^verbatim>\<open>app.py\<close> passes the dictionary) or a flat
  Python list of objects (a feature vector).
\<close>

datatype features = Single cell | Flat "cell list"

fun py_value :: "features \<Rightarrow> cell nd" where
  "py_value (Single c) = Item c"
| "py_value (Flat cs) = Seq (map Item cs)"

text \<open>
  What \<^verbatim>\<open>model.predict\<close> receives is either a Python object (\<^verbatim>\<open>src/model.py\<close>
  passes the list \<^verbatim>\<open>[features]\<close>) or a NumPy array (\<^verbatim>\<open>src/utils/model.py\<close> passes
  one). The two are different values even when they hold the same nesting of the same
  entries, and an artifact may tell them apart.
\<close>

datatype array_like = Python "cell nd" | NdArray "cell nd"

fun contents :: "array_like \<Rightarrow> cell nd" where
  "contents (Python v) = v"
| "contents (NdArray a) = a"

text \<open>All leaves of a nesting, in order, as objects and as 0-dimensional items.\<close>

fun leaves :: "'a nd \<Rightarrow> 'a list" where
  "leaves (Item c) = [c]"
| "leaves (Seq xs) = concat (map leaves xs)"

fun ravel :: "'a nd \<Rightarrow> 'a nd list" where
  "ravel (Item c) = [Item c]"
| "ravel (Seq xs) = concat (map ravel xs)"

definition is_object :: "cell \<Rightarrow> bool" where
  "is_object c = (case c of Dict _ \<Rightarrow> True | _ \<Rightarrow> False)"

text \<open>
  \<^verbatim>\<open>np.array(x)\<close> keeps the nesting of \<open>x\<close> (a single object gives a 0-dimensional
  array, a flat list a 1-dimensional one, a list of one flat list a 2-dimensional one)
  and stores every leaf in one common dtype, which it finds from all the leaves. With a
  dictionary among the leaves the dtype is \<^verbatim>\<open>object\<close> and the leaves are stored as
  they are. Among numbers only, the choice of the dtype and the conversion of a leaf to
  it belong to NumPy; they are the parameter \<open>cast\<close>, which is given all the leaves
  and converts one of them.
\<close>

definition np_array :: "(cell list \<Rightarrow> cell \<Rightarrow> cell) \<Rightarrow> cell nd \<Rightarrow> cell nd" where
  "np_array cast x =
    (if list_ex is_object (leaves x) then x else map_nd (cast (leaves x)) x)"

text \<open>\<^verbatim>\<open>.reshape(1, -1)\<close> lays all entries out, in order, as the only row of a
  2-dimensional array.\<close>

definition reshape_1_minus1 :: "'a nd \<Rightarrow> 'a nd" where
  "reshape_1_minus1 a = Seq [Seq (ravel a)]"

text \<open>\<^verbatim>\<open>np.asarray\<close> returns a NumPy array as it is and converts anything else.\<close>

fun np_asarray :: "(cell list \<Rightarrow> cell \<Rightarrow> cell) \<Rightarrow> array_like \<Rightarrow> array_like" where
  "np_asarray cast (NdArray a) = NdArray a"
| "np_asarray cast (Python v) = NdArray (np_array cast v)"

text \<open>
  The artifact is opaque: its \<^verbatim>\<open>predict\<close> takes a Python object or a NumPy array and
  returns a sequence of predictions, or raises.
\<close>

type_synonym 'r model = "array_like \<Rightarrow> error + 'r list"

text \<open>
  An artifact whose \<^verbatim>\<open>predict\<close> first converts its argument with \<^verbatim>\<open>np.asarray\<close> and
  then works on the array alone, as the estimators of scikit-learn do.
\<close>

definition asarray_model :: "(cell list \<Rightarrow> cell \<Rightarrow> cell) \<Rightarrow> 'r model \<Rightarrow> 'r model" where
  "asarray_model cast g x = g (np_asarray cast x)"

text \<open>\<^verbatim>\<open>xs[0]\<close> raises \<^verbatim>\<open>IndexError\<close> on an empty sequence.\<close>

definition first :: "'a list \<Rightarrow> error + 'a" where
  "first xs = (case xs of [] \<Rightarrow> Inl IndexError | x # _ \<Rightarrow> Inr x)"

text \<open>
  \<^verbatim>\<open>predict_yield\<close> of \<^verbatim>\<open>src/utils/model.py\<close> (lines 11--14), the one \<^verbatim>\<open>app.py\<close>
  imports. The first component of the result lists the arguments of the calls of
  \<^verbatim>\<open>model.predict\<close> it makes, in order; the second is what it returns or raises.
\<close>

definition predict_yield ::
  "(cell list \<Rightarrow> cell \<Rightarrow> cell) \<Rightarrow> 'r model \<Rightarrow> features \<Rightarrow> array_like list \<times> (error + 'r)" where
  "predict_yield cast model input_data =
    (let input_array = NdArray (reshape_1_minus1 (np_array cast (py_value input_data)));
         prediction = model input_array
     in ([input_array],
         case prediction of Inl e \<Rightarrow> Inl e | Inr ps \<Rightarrow> first ps))"

text \<open>\<^verbatim>\<open>predict_yield\<close> of \<^verbatim>\<open>src/model.py\<close> (lines 6--7): \<^verbatim>\<open>model.predict([features])[0]\<close>.\<close>

definition predict_yield_joblib :: "'r model \<Rightarrow> features \<Rightarrow> array_like list \<times> (error + 'r)" where
  "predict_yield_joblib model feats =
    (let arg = Python (Seq [py_value feats])
     in ([arg], case model arg of Inl e \<Rightarrow> Inl e | Inr ps \<Rightarrow> first ps))"

text \<open>
  The dictionary \<^verbatim>\<open>display_results\<close> reads from a prediction: \<^verbatim>\<open>'yield'\<close>,
  \<^verbatim>\<open>'confidence'\<close> and four tables.
\<close>

record prediction =
  yield :: real
  confidence :: real
  factor_importance :: "(string \<times> real) list"
  climate_suitability :: "(string \<times> real) list"
  regional_comparison :: "(string \<times> real) list"
  seasonal_trends :: "(string \<times> real) list"

text \<open>The specification's reading of "numeric vector": one row, every entry a number.\<close>

fun is_number :: "cell nd \<Rightarrow> bool" where
  "is_number (Item (PyInt _)) = True"
| "is_number (Item (PyFloat _)) = True"
| "is_number _ = False"

fun numeric_vector :: "cell nd \<Rightarrow> bool" where
  "numeric_vector (Seq [Seq row]) = list_all is_number row"
| "numeric_vector _ = False"

text \<open>Two artifacts used as concrete instances below.\<close>

definition sample_prediction :: prediction where
  "sample_prediction =
    \<lparr> yield = 4500, confidence = 80, factor_importance = [(''Rainfall'', 35)],
      climate_suitability = [(''temperature'', 90), (''rainfall'', 75), (''overall'', 82)],
      regional_comparison = [(''Punjab'', 4800)], seasonal_trends = [(''Jan'', 4400)] \<rparr>"

definition constant_model :: "prediction option model" where
  "constant_model a = Inr [Some sample_prediction]"

definition out_of_range_model :: "prediction option model" where
  "out_of_range_model a = Inr [Some (sample_prediction\<lparr> yield := - 1, confidence := 150 \<rparr>)]"

text \<open>An artifact that answers with the number of dimensions of its argument.\<close>

fun ndim :: "'a nd \<Rightarrow> nat" where
  "ndim (Item c) = 0"
| "ndim (Seq []) = 1"
| "ndim (Seq (x # xs)) = Suc (ndim x)"

definition ndim_model :: "nat model" where
  "ndim_model x = Inr [ndim (contents x)]"

text \<open>An artifact that answers 1 for a NumPy array and 0 for any other object.\<close>

definition isinstance_ndarray_model :: "nat model" where
  "isinstance_ndarray_model x = Inr [case x of NdArray _ \<Rightarrow> 1 | Python _ \<Rightarrow> 0]"

text \<open>An artifact that answers with the entries of the first row of its argument.\<close>

definition first_row_model :: "cell list model" where
  "first_row_model x =
    Inr [case contents x of Seq (row # _) \<Rightarrow> leaves row | _ \<Rightarrow> []]"

text \<open>
  An instance of NumPy's conversion for the examples below: beside a \<^verbatim>\<open>float\<close> an
  \<^verbatim>\<open>int\<close> becomes the \<^verbatim>\<open>float\<close> of the same value, which is what NumPy stores for
  an \<^verbatim>\<open>int\<close> of absolute value up to \<open>2 ^ 53\<close>; everything else is kept.
\<close>

definition is_float :: "cell \<Rightarrow> bool" where
  "is_float c = (case c of PyFloat _ \<Rightarrow> True | _ \<Rightarrow> False)"

definition small_cast :: "cell list \<Rightarrow> cell \<Rightarrow> cell" where
  "small_cast ls c =
    (case c of
       PyInt n \<Rightarrow> (if list_ex is_float ls then PyFloat (real_of_int n) else c)
     | _ \<Rightarrow> c)"

section \<open>Loading the artifact and \<^verbatim>\<open>main\<close>\<close>

text \<open>
  \<^verbatim>\<open>load_model\<close> of \<^verbatim>\<open>src/utils/model.py\<close> (lines 5--8) opens
  \<^verbatim>\<open>trained_model.pkl\<close> and unpickles it. The file is its contents, or \<open>None\<close> when it
  does not exist, and then \<^verbatim>\<open>open\<close> raises \<^verbatim>\<open>FileNotFoundError\<close>. \<^verbatim>\<open>pickle.load\<close> is
  a parameter: it returns the pickled object or raises.
\<close>

definition load_model :: "(string \<Rightarrow> error + 'm) \<Rightarrow> string option \<Rightarrow> error + 'm" where
  "load_model unpickle file =
    (case file of None \<Rightarrow> Inl FileNotFoundError | Some bytes \<Rightarrow> unpickle bytes)"

text \<open>
  \<^verbatim>\<open>initialize_model\<close> (lines 40--43) is \<^verbatim>\<open>load_model\<close> under \<^verbatim>\<open>st.cache_resource\<close>:
  a value returned once is kept for the life of the process, an exception is not kept.
\<close>

definition initialize_model ::
  "(string \<Rightarrow> error + 'm) \<Rightarrow> string option \<Rightarrow> 'm option \<Rightarrow> 'm option \<times> (error + 'm)" where
  "initialize_model unpickle file cache =
    (case cache of
       Some m \<Rightarrow> (cache, Inr m)
     | None \<Rightarrow>
        (case load_model unpickle file of
           Inl e \<Rightarrow> (None, Inl e)
         | Inr m \<Rightarrow> (Some m, Inr m)))"

text \<open>
  The state of the process between two runs of \<^verbatim>\<open>main\<close>: the cached artifact (which
  may be Python's \<^verbatim>\<open>None\<close>, hence the inner \<open>option\<close>) and the three entries of
  \<^verbatim>\<open>st.session_state\<close>, which are only ever written together.
\<close>

record app_state =
  model_cache :: "prediction option model option option"
  session :: "(prediction \<times> historical_result \<times> inputs) option"

text \<open>
  What one run of \<^verbatim>\<open>main\<close> puts on the page below the header: one of its two
  \<^verbatim>\<open>st.error\<close> messages, the call of \<^verbatim>\<open>display_results\<close> with its three arguments, or
  nothing.
\<close>

datatype screen =
  ModelLoadMessage
  | PredictionFailedMessage
  | Results prediction historical_result inputs
  | Blank

definition show_session :: "app_state \<Rightarrow> screen" where
  "show_session s = (case session s of None \<Rightarrow> Blank | Some (p, h, i) \<Rightarrow> Results p h i)"

text \<open>
  \<^verbatim>\<open>main\<close> (lines 105--197), given NumPy's conversion, the artifact file, the state
  of the process and the values of the six widgets. It returns the new state, the arguments of the calls of
  \<^verbatim>\<open>model.predict\<close> made during the run, and the exception that left \<^verbatim>\<open>main\<close> or
  the page it drew. No \<^verbatim>\<open>try\<close> surrounds any call: an exception leaves \<^verbatim>\<open>main\<close>.
\<close>

definition main ::
  "(cell list \<Rightarrow> cell \<Rightarrow> cell) \<Rightarrow>
   (string \<Rightarrow> error + prediction option model option) \<Rightarrow> string option \<Rightarrow> app_state \<Rightarrow>
   string \<Rightarrow> real \<Rightarrow> real \<Rightarrow> real \<Rightarrow> string \<Rightarrow> bool \<Rightarrow>
   app_state \<times> array_like list \<times> (error + screen)" where
  "main cast unpickle file s st ra te ph cr predict_button =
    (case initialize_model unpickle file (model_cache s) of
       (c, Inl e) \<Rightarrow> (s\<lparr>model_cache := c\<rparr>, [], Inl e)
     | (c, Inr None) \<Rightarrow> (s\<lparr>model_cache := c\<rparr>, [], Inr ModelLoadMessage)
     | (c, Inr (Some model)) \<Rightarrow>
        (let s1 = s\<lparr>model_cache := c\<rparr> in
         if predict_button then
           (let inps = preprocess_inputs st ra te ph cr;
                (calls, prediction_result) = predict_yield cast model (Single (Dict inps));
                historical_result = get_historical_prediction st cr
            in case prediction_result of
                 Inl e \<Rightarrow> (s1, calls, Inl e)
               | Inr None \<Rightarrow> (s1, calls, Inr PredictionFailedMessage)
               | Inr (Some p) \<Rightarrow>
                  (let s2 = s1\<lparr>session := Some (p, historical_result, inps)\<rparr>
                   in (s2, calls, Inr (show_session s2))))
         else (s1, [], Inr (show_session s1))))"

section \<open>The comparison figures of \<^verbatim>\<open>display_results\<close>\<close>

text \<open>
  Python's \<^verbatim>\<open>/\<close> raises \<^verbatim>\<open>ZeroDivisionError\<close> on a zero divisor. The predicted and
  the historical yield are numbers (the tables hold \<^verbatim>\<open>int\<close>), read here as reals.
\<close>

definition py_truediv :: "real \<Rightarrow> real \<Rightarrow> error + real" where
  "py_truediv a b = (if b = 0 then Inl ZeroDivisionError else Inr (a / b))"

text \<open>Line 221: \<^verbatim>\<open>user_yield / historical_yield if historical_yield > 0 else 1\<close>.\<close>

definition yield_ratio :: "real \<Rightarrow> real \<Rightarrow> error + real" where
  "yield_ratio user_yield hist_yield =
    (if hist_yield > 0 then py_truediv user_yield hist_yield else Inr 1)"

text \<open>
  Line 308: \<^verbatim>\<open>((user_yield / historical_yield) - 1) * 100 if historical_yield > 0 else 0\<close>.
\<close>

definition yield_diff_percent :: "real \<Rightarrow> real \<Rightarrow> error + real" where
  "yield_diff_percent user_yield hist_yield =
    (if hist_yield > 0 then
       (case py_truediv user_yield hist_yield of
          Inl e \<Rightarrow> Inl e
        | Inr q \<Rightarrow> Inr ((q - 1) * 100))
     else Inr 0)"

section \<open>Auxiliary facts\<close>

lemmas lookup_defs =
  get_historical_prediction_def dict_get_def dict_in_def historical_data_def
  default_yields_def exact_entry_def fallback_chain_def

lemma historical_keys:
  "dict_in s historical_data \<longleftrightarrow>
   s \<in> set [''Punjab'', ''Haryana'', ''Uttar Pradesh'', ''Maharashtra'', ''Karnataka'',
            ''Tamil Nadu'', ''Gujarat'', ''West Bengal'', ''Rajasthan'']"
  by (simp add: dict_in_def historical_data_def)

lemma dict_get_exact:
  "dict_get (dict_get historical_data s []) c d =
   (case exact_entry s c of Some y \<Rightarrow> y | None \<Rightarrow> d)"
  by (simp add: dict_get_def exact_entry_def split: option.splits)

lemma data_source_mentions:
  "sublist c (data_source (get_historical_prediction s c)) \<and>
   sublist s (data_source (get_historical_prediction s c))"
proof -
  have ds: "data_source (get_historical_prediction s c) =
      ''Average yield data for '' @ c @ '' in '' @ s"
    by (simp add: get_historical_prediction_def Let_def)
  have "sublist c (''Average yield data for '' @ c @ ('' in '' @ s))"
    by (rule sublist_appendI)
  moreover have "sublist s ((''Average yield data for '' @ c @ '' in '') @ s @ [])"
    by (rule sublist_appendI)
  ultimately show ?thesis using ds by simp
qed

lemma leaves_flat: "concat (map (leaves \<circ> Item) cs) = cs"
  by (induction cs) simp_all

lemma ravel_flat: "concat (map (ravel \<circ> (map_nd f \<circ> Item)) cs) = map (Item \<circ> f) cs"
  by (induction cs) simp_all

lemma np_array_dict: "np_array cast (Item (Dict i)) = Item (Dict i)"
  by (simp add: np_array_def is_object_def)

lemma input_array_dict:
  "reshape_1_minus1 (np_array cast (Item (Dict i))) = Seq [Seq [Item (Dict i)]]"
  by (simp add: reshape_1_minus1_def np_array_dict)

text \<open>
  For a flat list, \<^verbatim>\<open>np.asarray([features])\<close> and
  \<^verbatim>\<open>np.array(features).reshape(1, -1)\<close> are the same array: the leaves, and with
  them the dtype and the conversion, are the same.
\<close>

lemma input_array_flat:
  "np_array cast (Seq [Seq (map Item cs)]) =
   reshape_1_minus1 (np_array cast (Seq (map Item cs)))"
proof (cases "list_ex is_object cs")
  case True
  then show ?thesis
    by (simp add: np_array_def reshape_1_minus1_def leaves_flat ravel_flat [of id, simplified]
        comp_def)
next
  case False
  then show ?thesis
    by (simp add: np_array_def reshape_1_minus1_def leaves_flat ravel_flat comp_def)
qed

lemma valid_punjab: "valid_input (preprocess_inputs ''Punjab'' 800 25 (13 / 2) ''Wheat'')"
  by (simp add: valid_input_def preprocess_inputs_def dict_in_def INDIAN_STATES_def
      CROP_TYPES_def)

section \<open>The historical reference lookup\<close>

text \<open>
  C1. The claim: for state "Ladakh" and crop "Mustard" the lookup falls back to the
  crop-level default and returns 1200 with reliability 70. On the code the yield is not
  1200: "Ladakh" is no key of the historical table and "Mustard" is no key of
  \<^verbatim>\<open>default_yields\<close>, so the lookup reaches the global default.
\<close>

theorem ladakh_mustard_not_1200:
  "historical_yield (get_historical_prediction ''Ladakh'' ''Mustard'') \<noteq> 1200"
  by (simp add: lookup_defs)

text \<open>
  C1, as the code has it: for state "Ladakh" and crop "Mustard" there is neither an
  exact entry nor a crop-level default, and the lookup returns the global default 2500
  with reliability 70.
\<close>

theorem ladakh_mustard_global_default:
  "exact_entry ''Ladakh'' ''Mustard'' = None \<and>
   map_of default_yields ''Mustard'' = None \<and>
   historical_yield (get_historical_prediction ''Ladakh'' ''Mustard'') = 2500 \<and>
   reliability (get_historical_prediction ''Ladakh'' ''Mustard'') = 70"
  by (simp add: lookup_defs)

text \<open>
  C2. For every pair of strings the lookup returns a result, and its yield is resolved
  in the order exact state and crop entry, crop-only default, global default. The
  function has no error branch: \<^verbatim>\<open>dict.get\<close> with a default and \<^verbatim>\<open>in\<close> never
  raise on string keys, and nothing else in its body can. The theorem gives the whole
  returned dictionary for arbitrary arguments, with the yield equal to the chain written
  from the specification's words.
\<close>

theorem historical_lookup_total_fallback:
  "get_historical_prediction s c =
    \<lparr> historical_yield = fallback_chain s c,
      data_source = ''Average yield data for '' @ c @ '' in '' @ s,
      reliability = (if dict_in s historical_data then 85 else 70) \<rparr>"
  by (simp add: get_historical_prediction_def fallback_chain_def dict_get_exact Let_def)
    (simp add: dict_get_def split: option.splits)

text \<open>
  The three stages of the chain at concrete arguments: an exact entry, a crop-only
  default for a state without entries, and the global default for a pair absent from
  every table.
\<close>

theorem historical_lookup_total_fallback_witness:
  "historical_yield (get_historical_prediction ''Haryana'' ''Rice'') = 3900 \<and>
   historical_yield (get_historical_prediction ''Kerala'' ''Rice'') = 3000 \<and>
   historical_yield (get_historical_prediction ''Kerala'' ''Banana'') = 2500 \<and>
   historical_yield (get_historical_prediction ''Atlantis'' ''Seaweed'') = 2500"
  using historical_lookup_total_fallback [of "''Haryana''" "''Rice''"]
    historical_lookup_total_fallback [of "''Kerala''" "''Rice''"]
    historical_lookup_total_fallback [of "''Kerala''" "''Banana''"]
    historical_lookup_total_fallback [of "''Atlantis''" "''Seaweed''"]
  by (simp add: fallback_chain_def exact_entry_def historical_data_def default_yields_def)

text \<open>
  C3. For state "Punjab" and crop "Wheat" the lookup returns the yield 4800, the
  reliability 85 and a source description that contains both "Wheat" and "Punjab".
\<close>

theorem punjab_wheat_reference:
  "historical_yield (get_historical_prediction ''Punjab'' ''Wheat'') = 4800 \<and>
   reliability (get_historical_prediction ''Punjab'' ''Wheat'') = 85 \<and>
   data_source (get_historical_prediction ''Punjab'' ''Wheat'') =
     ''Average yield data for Wheat in Punjab'' \<and>
   sublist ''Wheat'' (data_source (get_historical_prediction ''Punjab'' ''Wheat'')) \<and>
   sublist ''Punjab'' (data_source (get_historical_prediction ''Punjab'' ''Wheat''))"
  using data_source_mentions [of "''Wheat''" "''Punjab''"]
  by (simp add: lookup_defs)

text \<open>
  C4. The claim: the reliability is 85 exactly when the historical table has an entry
  for that state and that crop. On the code, "Punjab" with "Mustard" has no such entry
  (the yield comes from the global default) and still gets reliability 85.
\<close>

theorem punjab_mustard_reliability_85:
  "reliability (get_historical_prediction ''Punjab'' ''Mustard'') = 85 \<and>
   exact_entry ''Punjab'' ''Mustard'' = None \<and>
   historical_yield (get_historical_prediction ''Punjab'' ''Mustard'') = 2500"
  by (simp add: lookup_defs)

text \<open>
  C4, as the code has it: the reliability depends on the state alone. It is 85 exactly
  when the state is one of the nine keys of the historical table, whatever the crop, and
  70 otherwise.
\<close>

theorem reliability_by_state:
  "(reliability (get_historical_prediction s c) = 85 \<longleftrightarrow> dict_in s historical_data) \<and>
   (reliability (get_historical_prediction s c) = 70 \<longleftrightarrow> \<not> dict_in s historical_data) \<and>
   (dict_in s historical_data \<longleftrightarrow>
    s \<in> set [''Punjab'', ''Haryana'', ''Uttar Pradesh'', ''Maharashtra'', ''Karnataka'',
             ''Tamil Nadu'', ''Gujarat'', ''West Bengal'', ''Rajasthan''])"
  using historical_keys [of s]
  by (simp add: get_historical_prediction_def Let_def)

section \<open>The estimate\<close>

text \<open>
  The estimate operation is lines 174--179 of \<^verbatim>\<open>main\<close>: \<^verbatim>\<open>preprocess_inputs\<close>
  followed by \<^verbatim>\<open>predict_yield\<close> on the loaded artifact.

  C5. The claim: for every valid input the estimate has a yield of at least 0 and a
  confidence between 0 and 100. The code returns the first prediction of the artifact
  as it is, so an artifact that answers outside these bounds makes the estimate leave
  them, here at the valid input Punjab, 800 mm, 25 degrees, pH 6.5, Wheat.
\<close>

theorem estimate_out_of_range:
  "valid_input (preprocess_inputs ''Punjab'' 800 25 (13 / 2) ''Wheat'') \<and>
   snd (predict_yield small_cast out_of_range_model
          (Single (Dict (preprocess_inputs ''Punjab'' 800 25 (13 / 2) ''Wheat''))))
     = Inr (Some (sample_prediction\<lparr> yield := - 1, confidence := 150 \<rparr>)) \<and>
   yield (sample_prediction\<lparr> yield := - 1, confidence := 150 \<rparr>) < 0 \<and>
   100 < confidence (sample_prediction\<lparr> yield := - 1, confidence := 150 \<rparr>)"
  using valid_punjab
  by (simp add: predict_yield_def out_of_range_model_def first_def Let_def)

text \<open>
  C5, as the code has it: for every valid input and every artifact whose first
  prediction for the array built from that input has a yield of at least 0 and a
  confidence between 0 and 100, the estimate is that prediction, unchanged, and so has a
  yield of at least 0 and a confidence between 0 and 100.
\<close>

theorem estimate_within_bounds:
  assumes "valid_input (preprocess_inputs st ra te ph cr)"
    and "model (NdArray (Seq [Seq [Item (Dict (preprocess_inputs st ra te ph cr))]]))
           = Inr (Some p # ps)"
    and "0 \<le> yield p" and "0 \<le> confidence p" and "confidence p \<le> 100"
  shows "\<exists>q. snd (predict_yield cast model
                  (Single (Dict (preprocess_inputs st ra te ph cr))))
            = Inr (Some q) \<and>
          q = p \<and> 0 \<le> yield q \<and> 0 \<le> confidence q \<and> confidence q \<le> 100"
  using assms by (simp add: predict_yield_def input_array_dict first_def Let_def)

theorem estimate_within_bounds_witness:
  "valid_input (preprocess_inputs ''Punjab'' 800 25 (13 / 2) ''Wheat'') \<and>
   snd (predict_yield small_cast constant_model
          (Single (Dict (preprocess_inputs ''Punjab'' 800 25 (13 / 2) ''Wheat''))))
     = Inr (Some sample_prediction) \<and>
   0 \<le> yield sample_prediction \<and> 0 \<le> confidence sample_prediction \<and>
   confidence sample_prediction \<le> 100"
proof -
  have m: "constant_model
      (NdArray (Seq [Seq [Item (Dict (preprocess_inputs ''Punjab'' 800 25 (13 / 2) ''Wheat''))]]))
      = Inr (Some sample_prediction # [])"
    by (simp add: constant_model_def)
  have b: "0 \<le> yield sample_prediction" "0 \<le> confidence sample_prediction"
    "confidence sample_prediction \<le> 100"
    by (simp_all add: sample_prediction_def)
  from estimate_within_bounds [of "''Punjab''" 800 25 "13 / 2" "''Wheat''"
      constant_model sample_prediction "[]" small_cast] valid_punjab m b
  show ?thesis by auto
qed

text \<open>
  C6. If the artifact file is absent when the artifact is loaded (nothing is cached
  yet), \<^verbatim>\<open>load_model\<close> raises \<^verbatim>\<open>FileNotFoundError\<close>, the exception leaves
  \<^verbatim>\<open>main\<close> whatever the widgets hold, \<^verbatim>\<open>model.predict\<close> is never called and the
  state of the process, with the stored prediction, is as it was: no result is produced.
  \<^verbatim>\<open>FileNotFoundError\<close> is the error the specification calls ModelUnavailable; the
  other errors of the estimate are \<^verbatim>\<open>IndexError\<close> and what the artifact raises.
\<close>

theorem absent_artifact_fails:
  assumes "model_cache s = None"
  shows "load_model unpickle None = Inl FileNotFoundError \<and>
         main cast unpickle None s st ra te ph cr predict_button
           = (s, [], Inl FileNotFoundError)"
  using assms by (simp add: load_model_def main_def initialize_model_def)

theorem absent_artifact_fails_witness:
  "model_cache \<lparr>model_cache = None, session = None\<rparr> = None \<and>
   main small_cast (\<lambda>bytes. Inr (Some constant_model)) None
       \<lparr>model_cache = None, session = None\<rparr> ''Punjab'' 800 25 (13 / 2) ''Wheat'' True
     = (\<lparr>model_cache = None, session = None\<rparr>, [], Inl FileNotFoundError)"
  using absent_artifact_fails [of "\<lparr>model_cache = None, session = None\<rparr>"
      "\<lambda>bytes. Inr (Some constant_model)" small_cast "''Punjab''" 800 25 "13 / 2"
      "''Wheat''" True]
  by simp

text \<open>
  C7. The claim: the five fields are mapped into a numeric vector, on which
  \<^verbatim>\<open>predict\<close> is called once. On the code the one call of \<^verbatim>\<open>predict\<close> gets an array
  whose only entry is the dictionary of inputs, with the state and the crop still
  strings: not a numeric vector.
\<close>

theorem predict_argument_not_numeric:
  "fst (predict_yield small_cast constant_model
          (Single (Dict (preprocess_inputs ''Punjab'' 800 25 (13 / 2) ''Wheat''))))
     = [NdArray (Seq [Seq [Item (Dict \<lparr> state = ''Punjab'', rainfall = 800,
           temperature = 25, soil_ph = 13 / 2, crop_type = ''Wheat'' \<rparr>)]])] \<and>
   \<not> numeric_vector
       (Seq [Seq [Item (Dict \<lparr> state = ''Punjab'', rainfall = 800, temperature = 25,
                               soil_ph = 13 / 2, crop_type = ''Wheat'' \<rparr>)]])"
  by (simp add: predict_yield_def input_array_dict preprocess_inputs_def Let_def)

text \<open>
  C7, as the code has it: \<^verbatim>\<open>preprocess_inputs\<close> maps the five fields into a
  dictionary with the keys in the fixed order state, rainfall, temperature, soil pH,
  crop type and the values unchanged; \<^verbatim>\<open>predict_yield\<close> calls \<^verbatim>\<open>predict\<close> exactly
  once, on the array with one row and one column holding that dictionary, and returns the
  first element of the answer.
\<close>

theorem single_predict_call_on_input_record:
  "predict_yield cast model (Single (Dict (preprocess_inputs st ra te ph cr))) =
    ([NdArray (Seq [Seq [Item (Dict \<lparr> state = st, rainfall = ra, temperature = te,
                                       soil_ph = ph, crop_type = cr \<rparr>)]])],
     case model (NdArray (Seq [Seq [Item (Dict \<lparr> state = st, rainfall = ra,
                     temperature = te, soil_ph = ph, crop_type = cr \<rparr>)]])) of
       Inl e \<Rightarrow> Inl e
     | Inr ps \<Rightarrow> first ps)"
  by (simp add: predict_yield_def input_array_dict preprocess_inputs_def Let_def)

section \<open>Guarded divisions\<close>

text \<open>
  C9. In \<^verbatim>\<open>display_results\<close> the yield ratio and the percent difference are guarded
  against division by zero: for every historical yield that is 0 or less the ratio is 1
  and the percent difference 0, for a positive one they are the quotient and its
  percent difference, and neither ever raises \<^verbatim>\<open>ZeroDivisionError\<close>.
\<close>

theorem divisions_guarded:
  "(h \<le> 0 \<longrightarrow> yield_ratio u h = Inr 1 \<and> yield_diff_percent u h = Inr 0) \<and>
   (0 < h \<longrightarrow> yield_ratio u h = Inr (u / h) \<and>
      yield_diff_percent u h = Inr ((u / h - 1) * 100)) \<and>
   yield_ratio u h \<noteq> Inl ZeroDivisionError \<and>
   yield_diff_percent u h \<noteq> Inl ZeroDivisionError"
  by (simp add: yield_ratio_def yield_diff_percent_def py_truediv_def)

theorem divisions_guarded_witness:
  "(0::real) \<le> 0 \<and> yield_ratio 4500 0 = Inr 1 \<and> yield_diff_percent 4500 0 = Inr 0 \<and>
   (0::real) < 4800 \<and> yield_ratio 4500 4800 = Inr (4500 / 4800) \<and>
   yield_diff_percent 4500 4800 = Inr ((4500 / 4800 - 1) * 100)"
  using divisions_guarded [of 0 4500] divisions_guarded [of 4800 4500] by simp

section \<open>The two \<^verbatim>\<open>predict_yield\<close> functions compared\<close>

text \<open>
  C10. The claim: for every model and every feature input the two functions return the
  same value. Two things stand against it. On a flat list of features
  \<^verbatim>\<open>src/model.py\<close> hands \<^verbatim>\<open>predict\<close> a Python list and \<^verbatim>\<open>src/utils/model.py\<close> a
  NumPy array, and an artifact that asks which it got answers differently. And for a
  single object, such as the dictionary \<^verbatim>\<open>app.py\<close> passes, \<^verbatim>\<open>[features]\<close> is
  one-dimensional while \<^verbatim>\<open>np.array(features).reshape(1, -1)\<close> is two-dimensional, so
  even an artifact that converts its argument with \<^verbatim>\<open>np.asarray\<close> and looks at the
  array alone tells them apart.
\<close>

theorem predict_yield_versions_differ:
  "snd (predict_yield_joblib isinstance_ndarray_model (Flat [PyFloat 1, PyFloat 2])) = Inr 0 \<and>
   snd (predict_yield small_cast isinstance_ndarray_model (Flat [PyFloat 1, PyFloat 2]))
     = Inr 1 \<and>
   snd (predict_yield_joblib (asarray_model small_cast ndim_model)
          (Single (Dict (preprocess_inputs ''Punjab'' 800 25 (13 / 2) ''Wheat'')))) = Inr 1 \<and>
   snd (predict_yield small_cast (asarray_model small_cast ndim_model)
          (Single (Dict (preprocess_inputs ''Punjab'' 800 25 (13 / 2) ''Wheat'')))) = Inr 2"
  by (simp add: predict_yield_joblib_def predict_yield_def asarray_model_def
      isinstance_ndarray_model_def ndim_model_def np_array_def reshape_1_minus1_def
      is_object_def small_cast_def is_float_def first_def Let_def)

text \<open>
  C10, as the code has it: for every flat list of features, the array
  \<^verbatim>\<open>src/utils/model.py\<close> passes to \<^verbatim>\<open>predict\<close> is \<^verbatim>\<open>np.asarray\<close> of the list
  \<^verbatim>\<open>src/model.py\<close> passes, whatever NumPy's conversion of the numbers is; so for every
  artifact whose \<^verbatim>\<open>predict\<close> converts its argument with \<^verbatim>\<open>np.asarray\<close> and works on
  the array alone, the two functions return the same value.
\<close>

theorem predict_yield_versions_agree_on_flat:
  "np_asarray cast (Python (Seq [py_value (Flat cs)]))
     = NdArray (reshape_1_minus1 (np_array cast (py_value (Flat cs)))) \<and>
   snd (predict_yield_joblib (asarray_model cast g) (Flat cs))
     = snd (predict_yield cast (asarray_model cast g) (Flat cs))"
  by (simp add: predict_yield_joblib_def predict_yield_def asarray_model_def
      input_array_flat Let_def)

text \<open>
  At the features 3 (an \<^verbatim>\<open>int\<close>) and 0.5: the list holds the \<^verbatim>\<open>int\<close>, the array the
  \<^verbatim>\<open>float\<close> 3.0, and an artifact that converts with \<^verbatim>\<open>np.asarray\<close> sees the row
  3.0, 0.5 from both functions.
\<close>

theorem predict_yield_versions_agree_on_flat_witness:
  "fst (predict_yield_joblib (asarray_model small_cast first_row_model)
          (Flat [PyInt 3, PyFloat (1 / 2)]))
     = [Python (Seq [Seq [Item (PyInt 3), Item (PyFloat (1 / 2))]])] \<and>
   fst (predict_yield small_cast (asarray_model small_cast first_row_model)
          (Flat [PyInt 3, PyFloat (1 / 2)]))
     = [NdArray (Seq [Seq [Item (PyFloat 3), Item (PyFloat (1 / 2))]])] \<and>
   snd (predict_yield_joblib (asarray_model small_cast first_row_model)
          (Flat [PyInt 3, PyFloat (1 / 2)]))
     = Inr [PyFloat 3, PyFloat (1 / 2)] \<and>
   snd (predict_yield small_cast (asarray_model small_cast first_row_model)
          (Flat [PyInt 3, PyFloat (1 / 2)]))
     = Inr [PyFloat 3, PyFloat (1 / 2)]"
proof -
  have u: "predict_yield small_cast (asarray_model small_cast first_row_model)
          (Flat [PyInt 3, PyFloat (1 / 2)])
     = ([NdArray (Seq [Seq [Item (PyFloat 3), Item (PyFloat (1 / 2))]])],
        Inr [PyFloat 3, PyFloat (1 / 2)])"
    by (simp add: predict_yield_def asarray_model_def first_row_model_def np_array_def
        reshape_1_minus1_def is_object_def small_cast_def is_float_def first_def Let_def)
  have j: "fst (predict_yield_joblib (asarray_model small_cast first_row_model)
          (Flat [PyInt 3, PyFloat (1 / 2)]))
     = [Python (Seq [Seq [Item (PyInt 3), Item (PyFloat (1 / 2))]])]"
    by (simp add: predict_yield_joblib_def Let_def)
  from predict_yield_versions_agree_on_flat [of small_cast "[PyInt 3, PyFloat (1 / 2)]"
      first_row_model] u j
  show ?thesis by simp
qed

end
